theory Spec2Isabelle
  imports Complex_Main
begin

section \<open>The tool handlers of api/server.ts\<close>

text \<open>
  \<^verbatim>\<open>api/server.ts\<close> registers fifteen tools on an MCP server. Each tool is a
  name, a zod schema for its arguments and an async handler; fourteen handlers
  forward their arguments in one call to the Meeting BaaS client and shape the
  answer into a result envelope, the fifteenth (\<^verbatim>\<open>echo\<close>) answers by itself.
\<close>

subsection \<open>JavaScript values\<close>

text \<open>
  The values that cross the two untyped boundaries of the file: the raw argument
  bag of a tool call and the argument list of a client call. \<^verbatim>\<open>undefined\<close>
  is a value of its own: it is what a destructured field that is absent holds.
\<close>

datatype jsval =
    JUndefined
  | JNull
  | JBool bool
  | JNum real
  | JStr string
  | JArr "jsval list"
  | JObj "(string \<times> jsval) list"

text \<open>The value of a variable of TypeScript type \<^verbatim>\<open>T | undefined\<close>.\<close>

fun optional :: "('a \<Rightarrow> jsval) \<Rightarrow> 'a option \<Rightarrow> jsval" where
  "optional f None = JUndefined"
| "optional f (Some x) = f x"

subsection \<open>The result envelope\<close>

text \<open>
  \<^verbatim>\<open>{ content: [{ type: "text", text: ... }], isError?: boolean }\<close>.
  The field \<^verbatim>\<open>isError\<close> is optional: an object literal without it is
  \<open>isError = None\<close>. The block's fields \<^verbatim>\<open>type\<close> and \<^verbatim>\<open>text\<close>
  are named \<open>block_type\<close> and \<open>block_text\<close>. The text of a block is what
  the handler's expression evaluates to: a string, or \<^verbatim>\<open>undefined\<close>
  (\<open>None\<close>) where \<^verbatim>\<open>JSON.stringify\<close> returns that.
\<close>

record block =
  block_type :: string
  block_text :: "string option"

record envelope =
  content :: "block list"
  isError :: "bool option"

subsection \<open>The world outside a handler\<close>

text \<open>
  A handler has two effects: it calls a method of the client, and in its catch
  branch it writes to \<^verbatim>\<open>console.error\<close>. Both are recorded, in order:
  \<open>calls\<close> holds each client call as the method's name and its argument list,
  \<open>console\<close> each logged line as its message and the error value logged with it.
\<close>

record world =
  calls :: "(string \<times> jsval list) list"
  console :: "(string \<times> jsval) list"

text \<open>
  The client \<^verbatim>\<open>new BaasClient({...})\<close> of the SDK \<^verbatim>\<open>@meeting-baas/sdk\<close>,
  which is not part of the repository: a parameter of every handler. Each method
  takes the argument list it is called with and either rejects with an error
  value (\<open>Inl\<close>; a throw of the call itself is the same to \<^verbatim>\<open>await\<close>) or
  resolves (\<open>Inr\<close>). The resolved values are typed as the handlers use them:
  \<^item> \<^verbatim>\<open>joinMeeting\<close> resolves to the bot's id, spliced into a template
    string: the string it is spliced as;
  \<^item> \<^verbatim>\<open>leaveMeeting\<close> and \<^verbatim>\<open>deleteCalendar\<close> resolve to the condition
    \<^verbatim>\<open>success\<close> of a conditional: a boolean;
  \<^item> \<^verbatim>\<open>deleteData\<close>, \<^verbatim>\<open>resyncAllCalendars\<close>, \<^verbatim>\<open>scheduleRecordEvent\<close>
    and \<^verbatim>\<open>unscheduleRecordEvent\<close> resolve to a value that the handler binds
    to \<^verbatim>\<open>result\<close> and never reads: a value of any type \<open>'u\<close>;
  \<^item> the other methods resolve to a value that the handler passes to
    \<^verbatim>\<open>JSON.stringify\<close>: \<^verbatim>\<open>undefined\<close> (\<open>None\<close>), or structured data
    of any type \<open>'d\<close>.

  A call that never settles is outside the model: every call is answered.
\<close>

record ('u, 'd) BaasClient =
  joinMeeting :: "jsval list \<Rightarrow> jsval + string"
  leaveMeeting :: "jsval list \<Rightarrow> jsval + bool"
  getMeetingData :: "jsval list \<Rightarrow> jsval + 'd option"
  deleteData :: "jsval list \<Rightarrow> jsval + 'u"
  createCalendar :: "jsval list \<Rightarrow> jsval + 'd option"
  listCalendars :: "jsval list \<Rightarrow> jsval + 'd option"
  getCalendar :: "jsval list \<Rightarrow> jsval + 'd option"
  deleteCalendar :: "jsval list \<Rightarrow> jsval + bool"
  resyncAllCalendars :: "jsval list \<Rightarrow> jsval + 'u"
  listRecentBots :: "jsval list \<Rightarrow> jsval + 'd option"
  listEvents :: "jsval list \<Rightarrow> jsval + 'd option"
  scheduleRecordEvent :: "jsval list \<Rightarrow> jsval + 'u"
  unscheduleRecordEvent :: "jsval list \<Rightarrow> jsval + 'u"
  updateCalendar :: "jsval list \<Rightarrow> jsval + 'd option"

text \<open>\<^verbatim>\<open>await baasClient.method(args)\<close>: the call is recorded and answered.\<close>

definition await :: "(jsval list \<Rightarrow> jsval + 'r) \<Rightarrow> string \<Rightarrow> jsval list \<Rightarrow> world
    \<Rightarrow> (jsval + 'r) \<times> world" where
  "await method name args w = (method args, w\<lparr>calls := calls w @ [(name, args)]\<rparr>)"

text \<open>\<^verbatim>\<open>console.error(msg, error)\<close>.\<close>

definition console_error :: "string \<Rightarrow> jsval \<Rightarrow> world \<Rightarrow> world" where
  "console_error msg error w = w\<lparr>console := console w @ [(msg, error)]\<rparr>"

text \<open>
  \<^verbatim>\<open>try { ... } catch (error) { ... }\<close>. A run of a block either returns
  (\<open>Inr\<close>) or throws (\<open>Inl\<close>). A throw of the try block enters the catch
  block with the error thrown, in the world as the try block left it; what the
  catch block returns or throws is what the statement returns or throws.
\<close>

definition try_catch :: "(world \<Rightarrow> (jsval + 'a) \<times> world)
    \<Rightarrow> (jsval \<Rightarrow> world \<Rightarrow> (jsval + 'a) \<times> world) \<Rightarrow> world \<Rightarrow> (jsval + 'a) \<times> world" where
  "try_catch try_block catch_block w =
     (case try_block w of
        (Inr returned, w') \<Rightarrow> (Inr returned, w')
      | (Inl error, w') \<Rightarrow> catch_block error w')"

text \<open>
  \<^verbatim>\<open>JSON.stringify(data, null, 2)\<close>. On \<^verbatim>\<open>undefined\<close> it returns
  \<^verbatim>\<open>undefined\<close>. What it does on the SDK's structured data is the parameter
  \<open>JSON_stringify\<close>: it throws (\<open>Inl\<close>) or returns the string (\<open>Inr\<close>).
\<close>

definition stringify :: "('d \<Rightarrow> jsval + string) \<Rightarrow> 'd option \<Rightarrow> jsval + string option" where
  "stringify JSON_stringify data =
     (case data of
        None \<Rightarrow> Inr None
      | Some d \<Rightarrow> (case JSON_stringify d of Inl error \<Rightarrow> Inl error | Inr s \<Rightarrow> Inr (Some s)))"

text \<open>
  A value of type \<^verbatim>\<open>string | undefined\<close> spliced into a template string:
  \<^verbatim>\<open>undefined\<close> is spliced as the word "undefined".
\<close>

fun interpolate :: "string option \<Rightarrow> string" where
  "interpolate None = ''undefined''"
| "interpolate (Some s) = s"

subsection \<open>The argument lists of the client calls\<close>

text \<open>
  The object literal passed to \<^verbatim>\<open>baasClient.joinMeeting\<close> (lines 39 to 46).
  \<^verbatim>\<open>speechToText ? { provider: "Default" } : undefined\<close> tests the truthiness
  of a value of type \<^verbatim>\<open>boolean | undefined\<close>: only \<^verbatim>\<open>true\<close> is truthy.
\<close>

definition joinMeeting_params :: "string \<Rightarrow> string \<Rightarrow> string option \<Rightarrow> string option
    \<Rightarrow> bool option \<Rightarrow> bool \<Rightarrow> jsval" where
  "joinMeeting_params meetingUrl botName webhookUrl recordingMode speechToText reserved =
     JObj [(''meetingUrl'', JStr meetingUrl),
           (''botName'', JStr botName),
           (''webhookUrl'', optional JStr webhookUrl),
           (''recordingMode'', optional JStr recordingMode),
           (''speechToText'',
              if speechToText = Some True then JObj [(''provider'', JStr ''Default'')]
              else JUndefined),
           (''reserved'', JBool reserved)]"

text \<open>The object literal passed to \<^verbatim>\<open>baasClient.createCalendar\<close> (lines 186 to 192).\<close>

definition createCalendar_params :: "string \<Rightarrow> string \<Rightarrow> string \<Rightarrow> string \<Rightarrow> string
    \<Rightarrow> jsval" where
  "createCalendar_params oauthClientId oauthClientSecret oauthRefreshToken platform rawCalendarId =
     JObj [(''oauthClientId'', JStr oauthClientId),
           (''oauthClientSecret'', JStr oauthClientSecret),
           (''oauthRefreshToken'', JStr oauthRefreshToken),
           (''platform'', JStr (if platform = ''Google'' then ''Google'' else ''Microsoft'')),
           (''rawCalendarId'', JStr rawCalendarId)]"

text \<open>The object literal passed to \<^verbatim>\<open>baasClient.listRecentBots\<close> (lines 378 to 388).\<close>

definition listRecentBots_params :: "string option \<Rightarrow> string option \<Rightarrow> string option
    \<Rightarrow> string option \<Rightarrow> string option \<Rightarrow> real option \<Rightarrow> string option \<Rightarrow> string option
    \<Rightarrow> string option \<Rightarrow> jsval" where
  "listRecentBots_params botName createdAfter createdBefore cursor filterByExtra limit
       meetingUrl sortByExtra speakerName =
     JObj [(''botName'', optional JStr botName),
           (''createdAfter'', optional JStr createdAfter),
           (''createdBefore'', optional JStr createdBefore),
           (''cursor'', optional JStr cursor),
           (''filterByExtra'', optional JStr filterByExtra),
           (''limit'', optional JNum limit),
           (''meetingUrl'', optional JStr meetingUrl),
           (''sortByExtra'', optional JStr sortByExtra),
           (''speakerName'', optional JStr speakerName)]"

text \<open>
  The second argument of \<^verbatim>\<open>baasClient.scheduleRecordEvent\<close> (lines 460 to 463).
\<close>

definition scheduleRecordEvent_params :: "string \<Rightarrow> (string \<times> jsval) list option \<Rightarrow> jsval" where
  "scheduleRecordEvent_params botName extra =
     JObj [(''botName'', JStr botName), (''extra'', optional JObj extra)]"

text \<open>
  The second argument of \<^verbatim>\<open>baasClient.updateCalendar\<close> (lines 544 to 550).
  \<^verbatim>\<open>platform === "Google" ? "Google" : "Microsoft"\<close> compares a value of type
  \<^verbatim>\<open>string | undefined\<close> with a string.
\<close>

definition updateCalendar_params :: "string option \<Rightarrow> string option \<Rightarrow> string option
    \<Rightarrow> string option \<Rightarrow> string option \<Rightarrow> jsval" where
  "updateCalendar_params oauthClientId oauthClientSecret oauthRefreshToken platform rawCalendarId =
     JObj [(''oauthClientId'', optional JStr oauthClientId),
           (''oauthClientSecret'', optional JStr oauthClientSecret),
           (''oauthRefreshToken'', optional JStr oauthRefreshToken),
           (''platform'', JStr (if platform = Some ''Google'' then ''Google'' else ''Microsoft'')),
           (''rawCalendarId'', optional JStr rawCalendarId)]"

subsection \<open>The handlers\<close>

text \<open>
  Each handler is \<^verbatim>\<open>try { const r = await baasClient.m(...); return A } catch (error)
  { console.error(msg, error); return B }\<close>, an async function: its run either
  returns an envelope (\<open>Inr\<close>) or throws outward (\<open>Inl\<close>). Two expressions
  of a try block can throw: the awaited call, when it rejects, and
  \<^verbatim>\<open>JSON.stringify\<close>. Either throw enters the catch block.
\<close>

definition joinMeeting_handler :: "('u, 'd) BaasClient \<Rightarrow> string \<Rightarrow> string \<Rightarrow> string option
    \<Rightarrow> string option \<Rightarrow> bool option \<Rightarrow> bool
    \<Rightarrow> world \<Rightarrow> (jsval + envelope) \<times> world" where
  "joinMeeting_handler baasClient meetingUrl botName webhookUrl recordingMode speechToText
       reserved =
     try_catch
       (\<lambda>w. case await (joinMeeting baasClient) ''joinMeeting''
               [joinMeeting_params meetingUrl botName webhookUrl recordingMode speechToText
                  reserved] w of
          (Inl error, w') \<Rightarrow> (Inl error, w')
        | (Inr botId, w') \<Rightarrow>
            (Inr \<lparr>content = [\<lparr>block_type = ''text'',
                         block_text = Some (''Successfully joined meeting with bot ID: '' @ botId)\<rparr>],
            isError = None\<rparr>, w'))
       (\<lambda>error w.
          (Inr \<lparr>content = [\<lparr>block_type = ''text'',
                         block_text = Some ''Failed to join meeting''\<rparr>],
            isError = Some True\<rparr>,
           console_error ''Failed to join meeting:'' error w))"

definition leaveMeeting_handler :: "('u, 'd) BaasClient \<Rightarrow> string \<Rightarrow> world
    \<Rightarrow> (jsval + envelope) \<times> world" where
  "leaveMeeting_handler baasClient botId =
     try_catch
       (\<lambda>w. case await (leaveMeeting baasClient) ''leaveMeeting''
               [JStr botId] w of
          (Inl error, w') \<Rightarrow> (Inl error, w')
        | (Inr success, w') \<Rightarrow>
            (Inr \<lparr>content = [\<lparr>block_type = ''text'',
                         block_text = Some (if success then ''Successfully left meeting''
                                             else ''Failed to leave meeting'')\<rparr>],
            isError = None\<rparr>, w'))
       (\<lambda>error w.
          (Inr \<lparr>content = [\<lparr>block_type = ''text'',
                         block_text = Some ''Failed to leave meeting''\<rparr>],
            isError = Some True\<rparr>,
           console_error ''Failed to leave meeting:'' error w))"

definition getMeetingData_handler :: "('u, 'd) BaasClient \<Rightarrow> ('d \<Rightarrow> jsval + string) \<Rightarrow> string
    \<Rightarrow> world \<Rightarrow> (jsval + envelope) \<times> world" where
  "getMeetingData_handler baasClient JSON_stringify botId =
     try_catch
       (\<lambda>w. case await (getMeetingData baasClient) ''getMeetingData''
               [JStr botId] w of
          (Inl error, w') \<Rightarrow> (Inl error, w')
        | (Inr data, w') \<Rightarrow>
            (case stringify JSON_stringify data of
               Inl error \<Rightarrow> (Inl error, w')
             | Inr text \<Rightarrow>
                 (Inr \<lparr>content = [\<lparr>block_type = ''text'',
                              block_text = text\<rparr>],
                 isError = None\<rparr>, w')))
       (\<lambda>error w.
          (Inr \<lparr>content = [\<lparr>block_type = ''text'',
                         block_text = Some ''Failed to get meeting data''\<rparr>],
            isError = Some True\<rparr>,
           console_error ''Failed to get meeting data:'' error w))"

definition deleteData_handler :: "('u, 'd) BaasClient \<Rightarrow> string \<Rightarrow> world
    \<Rightarrow> (jsval + envelope) \<times> world" where
  "deleteData_handler baasClient botId =
     try_catch
       (\<lambda>w. case await (deleteData baasClient) ''deleteData''
               [JStr botId] w of
          (Inl error, w') \<Rightarrow> (Inl error, w')
        | (Inr result, w') \<Rightarrow>
            (Inr \<lparr>content = [\<lparr>block_type = ''text'',
                         block_text = Some ''Successfully deleted meeting data''\<rparr>],
            isError = None\<rparr>, w'))
       (\<lambda>error w.
          (Inr \<lparr>content = [\<lparr>block_type = ''text'',
                         block_text = Some ''Failed to delete meeting data''\<rparr>],
            isError = Some True\<rparr>,
           console_error ''Failed to delete data:'' error w))"

definition createCalendar_handler :: "('u, 'd) BaasClient \<Rightarrow> ('d \<Rightarrow> jsval + string) \<Rightarrow> string
    \<Rightarrow> string \<Rightarrow> string \<Rightarrow> string \<Rightarrow> string
    \<Rightarrow> world \<Rightarrow> (jsval + envelope) \<times> world" where
  "createCalendar_handler baasClient JSON_stringify oauthClientId oauthClientSecret
       oauthRefreshToken platform rawCalendarId =
     try_catch
       (\<lambda>w. case await (createCalendar baasClient) ''createCalendar''
               [createCalendar_params oauthClientId oauthClientSecret oauthRefreshToken platform
                  rawCalendarId] w of
          (Inl error, w') \<Rightarrow> (Inl error, w')
        | (Inr calendar, w') \<Rightarrow>
            (case stringify JSON_stringify calendar of
               Inl error \<Rightarrow> (Inl error, w')
             | Inr text \<Rightarrow>
                 (Inr \<lparr>content = [\<lparr>block_type = ''text'',
                              block_text = Some (''Successfully created calendar: '' @ interpolate text)\<rparr>],
                 isError = None\<rparr>, w')))
       (\<lambda>error w.
          (Inr \<lparr>content = [\<lparr>block_type = ''text'',
                         block_text = Some ''Failed to create calendar''\<rparr>],
            isError = Some True\<rparr>,
           console_error ''Failed to create calendar:'' error w))"

definition listCalendars_handler :: "('u, 'd) BaasClient \<Rightarrow> ('d \<Rightarrow> jsval + string) \<Rightarrow> world
    \<Rightarrow> (jsval + envelope) \<times> world" where
  "listCalendars_handler baasClient JSON_stringify =
     try_catch
       (\<lambda>w. case await (listCalendars baasClient) ''listCalendars''
               [] w of
          (Inl error, w') \<Rightarrow> (Inl error, w')
        | (Inr calendars, w') \<Rightarrow>
            (case stringify JSON_stringify calendars of
               Inl error \<Rightarrow> (Inl error, w')
             | Inr text \<Rightarrow>
                 (Inr \<lparr>content = [\<lparr>block_type = ''text'',
                              block_text = text\<rparr>],
                 isError = None\<rparr>, w')))
       (\<lambda>error w.
          (Inr \<lparr>content = [\<lparr>block_type = ''text'',
                         block_text = Some ''Failed to list calendars''\<rparr>],
            isError = Some True\<rparr>,
           console_error ''Failed to list calendars:'' error w))"

definition getCalendar_handler :: "('u, 'd) BaasClient \<Rightarrow> ('d \<Rightarrow> jsval + string) \<Rightarrow> string
    \<Rightarrow> world \<Rightarrow> (jsval + envelope) \<times> world" where
  "getCalendar_handler baasClient JSON_stringify uuid =
     try_catch
       (\<lambda>w. case await (getCalendar baasClient) ''getCalendar''
               [JStr uuid] w of
          (Inl error, w') \<Rightarrow> (Inl error, w')
        | (Inr calendar, w') \<Rightarrow>
            (case stringify JSON_stringify calendar of
               Inl error \<Rightarrow> (Inl error, w')
             | Inr text \<Rightarrow>
                 (Inr \<lparr>content = [\<lparr>block_type = ''text'',
                              block_text = text\<rparr>],
                 isError = None\<rparr>, w')))
       (\<lambda>error w.
          (Inr \<lparr>content = [\<lparr>block_type = ''text'',
                         block_text = Some ''Failed to get calendar''\<rparr>],
            isError = Some True\<rparr>,
           console_error ''Failed to get calendar:'' error w))"

definition deleteCalendar_handler :: "('u, 'd) BaasClient \<Rightarrow> string \<Rightarrow> world
    \<Rightarrow> (jsval + envelope) \<times> world" where
  "deleteCalendar_handler baasClient uuid =
     try_catch
       (\<lambda>w. case await (deleteCalendar baasClient) ''deleteCalendar''
               [JStr uuid] w of
          (Inl error, w') \<Rightarrow> (Inl error, w')
        | (Inr success, w') \<Rightarrow>
            (Inr \<lparr>content = [\<lparr>block_type = ''text'',
                         block_text = Some (if success then ''Successfully deleted calendar''
                                             else ''Failed to delete calendar'')\<rparr>],
            isError = None\<rparr>, w'))
       (\<lambda>error w.
          (Inr \<lparr>content = [\<lparr>block_type = ''text'',
                         block_text = Some ''Failed to delete calendar''\<rparr>],
            isError = Some True\<rparr>,
           console_error ''Failed to delete calendar:'' error w))"

definition resyncAllCalendars_handler :: "('u, 'd) BaasClient \<Rightarrow> world \<Rightarrow> (jsval + envelope) \<times> world" where
  "resyncAllCalendars_handler baasClient =
     try_catch
       (\<lambda>w. case await (resyncAllCalendars baasClient) ''resyncAllCalendars''
               [] w of
          (Inl error, w') \<Rightarrow> (Inl error, w')
        | (Inr result, w') \<Rightarrow>
            (Inr \<lparr>content = [\<lparr>block_type = ''text'',
                         block_text = Some ''Successfully resynced all calendars''\<rparr>],
            isError = None\<rparr>, w'))
       (\<lambda>error w.
          (Inr \<lparr>content = [\<lparr>block_type = ''text'',
                         block_text = Some ''Failed to resync calendars''\<rparr>],
            isError = Some True\<rparr>,
           console_error ''Failed to resync calendars:'' error w))"

definition botsWithMetadata_handler :: "('u, 'd) BaasClient \<Rightarrow> ('d \<Rightarrow> jsval + string)
    \<Rightarrow> string option \<Rightarrow> string option \<Rightarrow> string option
    \<Rightarrow> string option \<Rightarrow> string option \<Rightarrow> real option
    \<Rightarrow> string option \<Rightarrow> string option \<Rightarrow> string option
    \<Rightarrow> world \<Rightarrow> (jsval + envelope) \<times> world" where
  "botsWithMetadata_handler baasClient JSON_stringify botName createdAfter createdBefore cursor
       filterByExtra limit meetingUrl sortByExtra speakerName =
     try_catch
       (\<lambda>w. case await (listRecentBots baasClient) ''listRecentBots''
               [listRecentBots_params botName createdAfter createdBefore cursor filterByExtra
                  limit meetingUrl sortByExtra speakerName] w of
          (Inl error, w') \<Rightarrow> (Inl error, w')
        | (Inr bots, w') \<Rightarrow>
            (case stringify JSON_stringify bots of
               Inl error \<Rightarrow> (Inl error, w')
             | Inr text \<Rightarrow>
                 (Inr \<lparr>content = [\<lparr>block_type = ''text'',
                              block_text = text\<rparr>],
                 isError = None\<rparr>, w')))
       (\<lambda>error w.
          (Inr \<lparr>content = [\<lparr>block_type = ''text'',
                         block_text = Some ''Failed to get bots with metadata''\<rparr>],
            isError = Some True\<rparr>,
           console_error ''Failed to get bots with metadata:'' error w))"

definition listEvents_handler :: "('u, 'd) BaasClient \<Rightarrow> ('d \<Rightarrow> jsval + string) \<Rightarrow> string
    \<Rightarrow> world \<Rightarrow> (jsval + envelope) \<times> world" where
  "listEvents_handler baasClient JSON_stringify calendarUuid =
     try_catch
       (\<lambda>w. case await (listEvents baasClient) ''listEvents''
               [JStr calendarUuid] w of
          (Inl error, w') \<Rightarrow> (Inl error, w')
        | (Inr events, w') \<Rightarrow>
            (case stringify JSON_stringify events of
               Inl error \<Rightarrow> (Inl error, w')
             | Inr text \<Rightarrow>
                 (Inr \<lparr>content = [\<lparr>block_type = ''text'',
                              block_text = text\<rparr>],
                 isError = None\<rparr>, w')))
       (\<lambda>error w.
          (Inr \<lparr>content = [\<lparr>block_type = ''text'',
                         block_text = Some ''Failed to list events''\<rparr>],
            isError = Some True\<rparr>,
           console_error ''Failed to list events:'' error w))"

definition scheduleRecordEvent_handler :: "('u, 'd) BaasClient \<Rightarrow> string \<Rightarrow> string
    \<Rightarrow> (string \<times> jsval) list option \<Rightarrow> world
    \<Rightarrow> (jsval + envelope) \<times> world" where
  "scheduleRecordEvent_handler baasClient eventUuid botName extra =
     try_catch
       (\<lambda>w. case await (scheduleRecordEvent baasClient) ''scheduleRecordEvent''
               [JStr eventUuid, scheduleRecordEvent_params botName extra] w of
          (Inl error, w') \<Rightarrow> (Inl error, w')
        | (Inr result, w') \<Rightarrow>
            (Inr \<lparr>content = [\<lparr>block_type = ''text'',
                         block_text = Some ''Successfully scheduled event recording''\<rparr>],
            isError = None\<rparr>, w'))
       (\<lambda>error w.
          (Inr \<lparr>content = [\<lparr>block_type = ''text'',
                         block_text = Some ''Failed to schedule event recording''\<rparr>],
            isError = Some True\<rparr>,
           console_error ''Failed to schedule event recording:'' error w))"

definition unscheduleRecordEvent_handler :: "('u, 'd) BaasClient \<Rightarrow> string \<Rightarrow> world
    \<Rightarrow> (jsval + envelope) \<times> world" where
  "unscheduleRecordEvent_handler baasClient eventUuid =
     try_catch
       (\<lambda>w. case await (unscheduleRecordEvent baasClient) ''unscheduleRecordEvent''
               [JStr eventUuid] w of
          (Inl error, w') \<Rightarrow> (Inl error, w')
        | (Inr result, w') \<Rightarrow>
            (Inr \<lparr>content = [\<lparr>block_type = ''text'',
                         block_text = Some ''Successfully unscheduled event recording''\<rparr>],
            isError = None\<rparr>, w'))
       (\<lambda>error w.
          (Inr \<lparr>content = [\<lparr>block_type = ''text'',
                         block_text = Some ''Failed to unschedule event recording''\<rparr>],
            isError = Some True\<rparr>,
           console_error ''Failed to unschedule event recording:'' error w))"

definition updateCalendar_handler :: "('u, 'd) BaasClient \<Rightarrow> ('d \<Rightarrow> jsval + string) \<Rightarrow> string
    \<Rightarrow> string option \<Rightarrow> string option \<Rightarrow> string option
    \<Rightarrow> string option \<Rightarrow> string option \<Rightarrow> world
    \<Rightarrow> (jsval + envelope) \<times> world" where
  "updateCalendar_handler baasClient JSON_stringify uuid oauthClientId oauthClientSecret
       oauthRefreshToken platform rawCalendarId =
     try_catch
       (\<lambda>w. case await (updateCalendar baasClient) ''updateCalendar''
               [JStr uuid,
                updateCalendar_params oauthClientId oauthClientSecret oauthRefreshToken platform
                  rawCalendarId] w of
          (Inl error, w') \<Rightarrow> (Inl error, w')
        | (Inr calendar, w') \<Rightarrow>
            (case stringify JSON_stringify calendar of
               Inl error \<Rightarrow> (Inl error, w')
             | Inr text \<Rightarrow>
                 (Inr \<lparr>content = [\<lparr>block_type = ''text'',
                              block_text = Some (''Successfully updated calendar: '' @ interpolate text)\<rparr>],
                 isError = None\<rparr>, w')))
       (\<lambda>error w.
          (Inr \<lparr>content = [\<lparr>block_type = ''text'',
                         block_text = Some ''Failed to update calendar''\<rparr>],
            isError = Some True\<rparr>,
           console_error ''Failed to update calendar:'' error w))"

text \<open>The echo tool has no try block and calls nothing.\<close>

definition echo_handler :: "string \<Rightarrow> world \<Rightarrow> (jsval + envelope) \<times> world" where
  "echo_handler message w =
     (Inr \<lparr>content = [\<lparr>block_type = ''text'',
                          block_text = Some (''Tool echo: '' @ message)\<rparr>],
            isError = None\<rparr>, w)"

subsection \<open>The registered tools\<close>

text \<open>
  A call that has passed its schema: the tool and the destructured arguments of
  its handler, in the order of the handler's parameter list, typed as the
  handler's TypeScript annotation types them. A \<^verbatim>\<open>platform\<close> is held as the
  string it is at run time; that it is one of the schema's two strings is
  \<open>validated\<close> below.
\<close>

datatype tool_args =
    JoinMeeting string string "string option" "string option" "bool option" bool
  | LeaveMeeting string
  | GetMeetingData string
  | DeleteData string
  | CreateCalendar string string string string string
  | ListCalendars
  | GetCalendar string
  | DeleteCalendar string
  | ResyncAllCalendars
  | BotsWithMetadata "string option" "string option" "string option" "string option"
      "string option" "real option" "string option" "string option" "string option"
  | ListEvents string
  | ScheduleRecordEvent string string "(string \<times> jsval) list option"
  | UnscheduleRecordEvent string
  | UpdateCalendar string "string option" "string option" "string option" "string option"
      "string option"
  | Echo string

text \<open>The name each \<^verbatim>\<open>server.tool(name, ...)\<close> registers.\<close>

fun tool_name :: "tool_args \<Rightarrow> string" where
  "tool_name (JoinMeeting meetingUrl botName webhookUrl recordingMode speechToText reserved) =
     ''joinMeeting''"
| "tool_name (LeaveMeeting botId) = ''leaveMeeting''"
| "tool_name (GetMeetingData botId) = ''getMeetingData''"
| "tool_name (DeleteData botId) = ''deleteData''"
| "tool_name (CreateCalendar oauthClientId oauthClientSecret oauthRefreshToken platform
     rawCalendarId) = ''createCalendar''"
| "tool_name ListCalendars = ''listCalendars''"
| "tool_name (GetCalendar uuid) = ''getCalendar''"
| "tool_name (DeleteCalendar uuid) = ''deleteCalendar''"
| "tool_name ResyncAllCalendars = ''resyncAllCalendars''"
| "tool_name (BotsWithMetadata botName createdAfter createdBefore cursor filterByExtra limit
     meetingUrl sortByExtra speakerName) = ''botsWithMetadata''"
| "tool_name (ListEvents calendarUuid) = ''listEvents''"
| "tool_name (ScheduleRecordEvent eventUuid botName extra) = ''scheduleRecordEvent''"
| "tool_name (UnscheduleRecordEvent eventUuid) = ''unscheduleRecordEvent''"
| "tool_name (UpdateCalendar uuid oauthClientId oauthClientSecret oauthRefreshToken platform
     rawCalendarId) = ''updateCalendar''"
| "tool_name (Echo message) = ''echo''"

text \<open>The handler registered for the tool, applied to the call's arguments.\<close>

fun handler :: "('u, 'd) BaasClient \<Rightarrow> ('d \<Rightarrow> jsval + string) \<Rightarrow> tool_args \<Rightarrow> world
    \<Rightarrow> (jsval + envelope) \<times> world" where
  "handler baasClient JSON_stringify
       (JoinMeeting meetingUrl botName webhookUrl recordingMode speechToText reserved) w =
     joinMeeting_handler baasClient meetingUrl botName webhookUrl recordingMode speechToText
       reserved w"
| "handler baasClient JSON_stringify (LeaveMeeting botId) w =
     leaveMeeting_handler baasClient botId w"
| "handler baasClient JSON_stringify (GetMeetingData botId) w =
     getMeetingData_handler baasClient JSON_stringify botId w"
| "handler baasClient JSON_stringify (DeleteData botId) w =
     deleteData_handler baasClient botId w"
| "handler baasClient JSON_stringify
       (CreateCalendar oauthClientId oauthClientSecret oauthRefreshToken platform
          rawCalendarId) w =
     createCalendar_handler baasClient JSON_stringify oauthClientId oauthClientSecret
       oauthRefreshToken platform rawCalendarId w"
| "handler baasClient JSON_stringify ListCalendars w =
     listCalendars_handler baasClient JSON_stringify w"
| "handler baasClient JSON_stringify (GetCalendar uuid) w =
     getCalendar_handler baasClient JSON_stringify uuid w"
| "handler baasClient JSON_stringify (DeleteCalendar uuid) w =
     deleteCalendar_handler baasClient uuid w"
| "handler baasClient JSON_stringify ResyncAllCalendars w =
     resyncAllCalendars_handler baasClient w"
| "handler baasClient JSON_stringify
       (BotsWithMetadata botName createdAfter createdBefore cursor filterByExtra limit
          meetingUrl sortByExtra speakerName) w =
     botsWithMetadata_handler baasClient JSON_stringify botName createdAfter createdBefore
       cursor filterByExtra limit meetingUrl sortByExtra speakerName w"
| "handler baasClient JSON_stringify (ListEvents calendarUuid) w =
     listEvents_handler baasClient JSON_stringify calendarUuid w"
| "handler baasClient JSON_stringify (ScheduleRecordEvent eventUuid botName extra) w =
     scheduleRecordEvent_handler baasClient eventUuid botName extra w"
| "handler baasClient JSON_stringify (UnscheduleRecordEvent eventUuid) w =
     unscheduleRecordEvent_handler baasClient eventUuid w"
| "handler baasClient JSON_stringify
       (UpdateCalendar uuid oauthClientId oauthClientSecret oauthRefreshToken platform
          rawCalendarId) w =
     updateCalendar_handler baasClient JSON_stringify uuid oauthClientId oauthClientSecret
       oauthRefreshToken platform rawCalendarId w"
| "handler baasClient JSON_stringify (Echo message) w = echo_handler message w"

text \<open>
  The answer of the client to the call that the tool's handler makes: \<open>None\<close>
  for \<^verbatim>\<open>echo\<close>, which makes none, otherwise the error the call rejects with
  (\<open>Inl\<close>) or the fact that it resolves.
\<close>

definition settled :: "jsval + 'r \<Rightarrow> (jsval + unit) option" where
  "settled r = (case r of Inl error \<Rightarrow> Some (Inl error) | Inr v \<Rightarrow> Some (Inr ()))"

fun backend_answer :: "('u, 'd) BaasClient \<Rightarrow> tool_args \<Rightarrow> (jsval + unit) option" where
  "backend_answer baasClient
       (JoinMeeting meetingUrl botName webhookUrl recordingMode speechToText reserved) =
     settled (joinMeeting baasClient
       [joinMeeting_params meetingUrl botName webhookUrl recordingMode speechToText reserved])"
| "backend_answer baasClient (LeaveMeeting botId) =
     settled (leaveMeeting baasClient [JStr botId])"
| "backend_answer baasClient (GetMeetingData botId) =
     settled (getMeetingData baasClient [JStr botId])"
| "backend_answer baasClient (DeleteData botId) =
     settled (deleteData baasClient [JStr botId])"
| "backend_answer baasClient
       (CreateCalendar oauthClientId oauthClientSecret oauthRefreshToken platform
          rawCalendarId) =
     settled (createCalendar baasClient
       [createCalendar_params oauthClientId oauthClientSecret oauthRefreshToken platform
          rawCalendarId])"
| "backend_answer baasClient ListCalendars = settled (listCalendars baasClient [])"
| "backend_answer baasClient (GetCalendar uuid) = settled (getCalendar baasClient [JStr uuid])"
| "backend_answer baasClient (DeleteCalendar uuid) =
     settled (deleteCalendar baasClient [JStr uuid])"
| "backend_answer baasClient ResyncAllCalendars = settled (resyncAllCalendars baasClient [])"
| "backend_answer baasClient
       (BotsWithMetadata botName createdAfter createdBefore cursor filterByExtra limit
          meetingUrl sortByExtra speakerName) =
     settled (listRecentBots baasClient
       [listRecentBots_params botName createdAfter createdBefore cursor filterByExtra limit
          meetingUrl sortByExtra speakerName])"
| "backend_answer baasClient (ListEvents calendarUuid) =
     settled (listEvents baasClient [JStr calendarUuid])"
| "backend_answer baasClient (ScheduleRecordEvent eventUuid botName extra) =
     settled (scheduleRecordEvent baasClient
       [JStr eventUuid, scheduleRecordEvent_params botName extra])"
| "backend_answer baasClient (UnscheduleRecordEvent eventUuid) =
     settled (unscheduleRecordEvent baasClient [JStr eventUuid])"
| "backend_answer baasClient
       (UpdateCalendar uuid oauthClientId oauthClientSecret oauthRefreshToken platform
          rawCalendarId) =
     settled (updateCalendar baasClient
       [JStr uuid,
        updateCalendar_params oauthClientId oauthClientSecret oauthRefreshToken platform
          rawCalendarId])"
| "backend_answer baasClient (Echo message) = None"

text \<open>
  The sentence of each catch branch, listed by tool (lines 61, 93, 123, 153, 211,
  241, 271, 303, 333, 403, 433, 478, 508 and 569); \<^verbatim>\<open>echo\<close> has no catch branch.
\<close>

fun failure_message :: "tool_args \<Rightarrow> string option" where
  "failure_message (JoinMeeting meetingUrl botName webhookUrl recordingMode speechToText
     reserved) = Some ''Failed to join meeting''"
| "failure_message (LeaveMeeting botId) = Some ''Failed to leave meeting''"
| "failure_message (GetMeetingData botId) = Some ''Failed to get meeting data''"
| "failure_message (DeleteData botId) = Some ''Failed to delete meeting data''"
| "failure_message (CreateCalendar oauthClientId oauthClientSecret oauthRefreshToken platform
     rawCalendarId) = Some ''Failed to create calendar''"
| "failure_message ListCalendars = Some ''Failed to list calendars''"
| "failure_message (GetCalendar uuid) = Some ''Failed to get calendar''"
| "failure_message (DeleteCalendar uuid) = Some ''Failed to delete calendar''"
| "failure_message ResyncAllCalendars = Some ''Failed to resync calendars''"
| "failure_message (BotsWithMetadata botName createdAfter createdBefore cursor filterByExtra
     limit meetingUrl sortByExtra speakerName) = Some ''Failed to get bots with metadata''"
| "failure_message (ListEvents calendarUuid) = Some ''Failed to list events''"
| "failure_message (ScheduleRecordEvent eventUuid botName extra) =
     Some ''Failed to schedule event recording''"
| "failure_message (UnscheduleRecordEvent eventUuid) =
     Some ''Failed to unschedule event recording''"
| "failure_message (UpdateCalendar uuid oauthClientId oauthClientSecret oauthRefreshToken
     platform rawCalendarId) = Some ''Failed to update calendar''"
| "failure_message (Echo message) = None"


text \<open>
  A client for closed examples. Whatever it is called with, \<^verbatim>\<open>joinMeeting\<close>
  answers \<open>id_answer\<close>, the two methods whose boolean is read answer
  \<open>status_answer\<close>, the four methods whose answer is never read answer
  \<open>unread_answer\<close>, and every other method answers \<open>data_answer\<close>.
\<close>

definition fixed_client :: "jsval + string \<Rightarrow> jsval + bool \<Rightarrow> jsval + 'u
    \<Rightarrow> jsval + 'd option \<Rightarrow> ('u, 'd) BaasClient" where
  "fixed_client id_answer status_answer unread_answer data_answer =
     \<lparr>joinMeeting = (\<lambda>args. id_answer),
      leaveMeeting = (\<lambda>args. status_answer),
      getMeetingData = (\<lambda>args. data_answer),
      deleteData = (\<lambda>args. unread_answer),
      createCalendar = (\<lambda>args. data_answer),
      listCalendars = (\<lambda>args. data_answer),
      getCalendar = (\<lambda>args. data_answer),
      deleteCalendar = (\<lambda>args. status_answer),
      resyncAllCalendars = (\<lambda>args. unread_answer),
      listRecentBots = (\<lambda>args. data_answer),
      listEvents = (\<lambda>args. data_answer),
      scheduleRecordEvent = (\<lambda>args. unread_answer),
      unscheduleRecordEvent = (\<lambda>args. unread_answer),
      updateCalendar = (\<lambda>args. data_answer)\<rparr>"

text \<open>The world before any call.\<close>

definition quiet :: world where
  "quiet = \<lparr>calls = [], console = []\<rparr>"

subsection \<open>Forwarding, as the specification words it\<close>

text \<open>
  The enum constraint of the two \<^verbatim>\<open>platform\<close> fields, which the string type
  of \<open>tool_args\<close> does not carry: \<^verbatim>\<open>z.enum(["Google", "Microsoft"])\<close> in
  \<^verbatim>\<open>createCalendar\<close> (line 169), the same made optional in
  \<^verbatim>\<open>updateCalendar\<close> (line 525).
\<close>

fun validated :: "tool_args \<Rightarrow> bool" where
  "validated (CreateCalendar oauthClientId oauthClientSecret oauthRefreshToken platform
     rawCalendarId) = (platform = ''Google'' \<or> platform = ''Microsoft'')"
| "validated (UpdateCalendar uuid oauthClientId oauthClientSecret oauthRefreshToken platform
     rawCalendarId) =
     (platform = None \<or> platform = Some ''Google'' \<or> platform = Some ''Microsoft'')"
| "validated a = True"

text \<open>An \<^verbatim>\<open>updateCalendar\<close> call that leaves its optional \<^verbatim>\<open>platform\<close> out.\<close>

fun omits_platform :: "tool_args \<Rightarrow> bool" where
  "omits_platform (UpdateCalendar uuid oauthClientId oauthClientSecret oauthRefreshToken None
     rawCalendarId) = True"
| "omits_platform a = False"

text \<open>
  The specification's reading of a handler without logic of its own: the call
  to the client carries every argument with the value the handler received,
  an absent one as \<^verbatim>\<open>undefined\<close>. The method and the shape of its argument
  list are the source's; only the values are the specification's.
\<close>

fun forwarded_unchanged :: "tool_args \<Rightarrow> (string \<times> jsval list) list" where
  "forwarded_unchanged
       (JoinMeeting meetingUrl botName webhookUrl recordingMode speechToText reserved) =
     [(''joinMeeting'',
       [JObj [(''meetingUrl'', JStr meetingUrl),
              (''botName'', JStr botName),
              (''webhookUrl'', optional JStr webhookUrl),
              (''recordingMode'', optional JStr recordingMode),
              (''speechToText'', optional JBool speechToText),
              (''reserved'', JBool reserved)]])]"
| "forwarded_unchanged (LeaveMeeting botId) = [(''leaveMeeting'', [JStr botId])]"
| "forwarded_unchanged (GetMeetingData botId) = [(''getMeetingData'', [JStr botId])]"
| "forwarded_unchanged (DeleteData botId) = [(''deleteData'', [JStr botId])]"
| "forwarded_unchanged
       (CreateCalendar oauthClientId oauthClientSecret oauthRefreshToken platform
          rawCalendarId) =
     [(''createCalendar'',
       [JObj [(''oauthClientId'', JStr oauthClientId),
              (''oauthClientSecret'', JStr oauthClientSecret),
              (''oauthRefreshToken'', JStr oauthRefreshToken),
              (''platform'', JStr platform),
              (''rawCalendarId'', JStr rawCalendarId)]])]"
| "forwarded_unchanged ListCalendars = [(''listCalendars'', [])]"
| "forwarded_unchanged (GetCalendar uuid) = [(''getCalendar'', [JStr uuid])]"
| "forwarded_unchanged (DeleteCalendar uuid) = [(''deleteCalendar'', [JStr uuid])]"
| "forwarded_unchanged ResyncAllCalendars = [(''resyncAllCalendars'', [])]"
| "forwarded_unchanged
       (BotsWithMetadata botName createdAfter createdBefore cursor filterByExtra limit
          meetingUrl sortByExtra speakerName) =
     [(''listRecentBots'',
       [JObj [(''botName'', optional JStr botName),
              (''createdAfter'', optional JStr createdAfter),
              (''createdBefore'', optional JStr createdBefore),
              (''cursor'', optional JStr cursor),
              (''filterByExtra'', optional JStr filterByExtra),
              (''limit'', optional JNum limit),
              (''meetingUrl'', optional JStr meetingUrl),
              (''sortByExtra'', optional JStr sortByExtra),
              (''speakerName'', optional JStr speakerName)]])]"
| "forwarded_unchanged (ListEvents calendarUuid) = [(''listEvents'', [JStr calendarUuid])]"
| "forwarded_unchanged (ScheduleRecordEvent eventUuid botName extra) =
     [(''scheduleRecordEvent'',
       [JStr eventUuid, JObj [(''botName'', JStr botName), (''extra'', optional JObj extra)]])]"
| "forwarded_unchanged (UnscheduleRecordEvent eventUuid) =
     [(''unscheduleRecordEvent'', [JStr eventUuid])]"
| "forwarded_unchanged
       (UpdateCalendar uuid oauthClientId oauthClientSecret oauthRefreshToken platform
          rawCalendarId) =
     [(''updateCalendar'',
       [JStr uuid,
        JObj [(''oauthClientId'', optional JStr oauthClientId),
              (''oauthClientSecret'', optional JStr oauthClientSecret),
              (''oauthRefreshToken'', optional JStr oauthRefreshToken),
              (''platform'', optional JStr platform),
              (''rawCalendarId'', optional JStr rawCalendarId)]])]"
| "forwarded_unchanged (Echo message) = []"

text \<open>
  The value the client receives under a key of the object that is the last
  argument of its only call; \<^verbatim>\<open>undefined\<close> when there is no such key.
\<close>

fun property :: "jsval \<Rightarrow> string \<Rightarrow> jsval" where
  "property (JObj kvs) k = (case map_of kvs k of None \<Rightarrow> JUndefined | Some v \<Rightarrow> v)"
| "property v k = JUndefined"

text \<open>
  A call with one key taken out of every object of its argument list: what two
  calls must share to agree on everything but the value under that key.
\<close>

fun without_key :: "string \<Rightarrow> jsval \<Rightarrow> jsval" where
  "without_key k (JObj kvs) = JObj (filter (\<lambda>kv. fst kv \<noteq> k) kvs)"
| "without_key k v = v"

definition without_property :: "string \<Rightarrow> string \<times> jsval list \<Rightarrow> string \<times> jsval list" where
  "without_property k call = (fst call, map (without_key k) (snd call))"

section \<open>The registry and the dispatcher\<close>

subsection \<open>The schemas of api/server.ts\<close>

text \<open>
  The zod expressions the schemas of the file are written with:
  \<^verbatim>\<open>z.string()\<close>, \<^verbatim>\<open>z.number()\<close>, \<^verbatim>\<open>z.boolean()\<close>,
  \<^verbatim>\<open>z.enum([...])\<close>, \<^verbatim>\<open>z.record(z.any())\<close> and \<^verbatim>\<open>.optional()\<close>.
\<close>

datatype ztype =
    ZString
  | ZNumber
  | ZBoolean
  | ZEnum "string list"
  | ZRecordAny
  | ZOptional ztype

datatype tool =
    T_joinMeeting
  | T_leaveMeeting
  | T_getMeetingData
  | T_deleteData
  | T_createCalendar
  | T_listCalendars
  | T_getCalendar
  | T_deleteCalendar
  | T_resyncAllCalendars
  | T_botsWithMetadata
  | T_listEvents
  | T_scheduleRecordEvent
  | T_unscheduleRecordEvent
  | T_updateCalendar
  | T_echo

text \<open>The tools in the order of their registration.\<close>

definition tools :: "tool list" where
  "tools = [T_joinMeeting, T_leaveMeeting, T_getMeetingData, T_deleteData, T_createCalendar,
            T_listCalendars, T_getCalendar, T_deleteCalendar, T_resyncAllCalendars,
            T_botsWithMetadata, T_listEvents, T_scheduleRecordEvent, T_unscheduleRecordEvent,
            T_updateCalendar, T_echo]"

fun name_of :: "tool \<Rightarrow> string" where
  "name_of T_joinMeeting = ''joinMeeting''"
| "name_of T_leaveMeeting = ''leaveMeeting''"
| "name_of T_getMeetingData = ''getMeetingData''"
| "name_of T_deleteData = ''deleteData''"
| "name_of T_createCalendar = ''createCalendar''"
| "name_of T_listCalendars = ''listCalendars''"
| "name_of T_getCalendar = ''getCalendar''"
| "name_of T_deleteCalendar = ''deleteCalendar''"
| "name_of T_resyncAllCalendars = ''resyncAllCalendars''"
| "name_of T_botsWithMetadata = ''botsWithMetadata''"
| "name_of T_listEvents = ''listEvents''"
| "name_of T_scheduleRecordEvent = ''scheduleRecordEvent''"
| "name_of T_unscheduleRecordEvent = ''unscheduleRecordEvent''"
| "name_of T_updateCalendar = ''updateCalendar''"
| "name_of T_echo = ''echo''"

text \<open>The schema object of each registration, field by field in the source's order.\<close>

fun inputSchema :: "tool \<Rightarrow> (string \<times> ztype) list" where
  "inputSchema T_joinMeeting =
     [(''meetingUrl'', ZString),
      (''botName'', ZString),
      (''webhookUrl'', ZOptional ZString),
      (''recordingMode'', ZOptional ZString),
      (''speechToText'', ZOptional ZBoolean),
      (''reserved'', ZBoolean)]"
| "inputSchema T_leaveMeeting = [(''botId'', ZString)]"
| "inputSchema T_getMeetingData = [(''botId'', ZString)]"
| "inputSchema T_deleteData = [(''botId'', ZString)]"
| "inputSchema T_createCalendar =
     [(''oauthClientId'', ZString),
      (''oauthClientSecret'', ZString),
      (''oauthRefreshToken'', ZString),
      (''platform'', ZEnum [''Google'', ''Microsoft'']),
      (''rawCalendarId'', ZString)]"
| "inputSchema T_listCalendars = []"
| "inputSchema T_getCalendar = [(''uuid'', ZString)]"
| "inputSchema T_deleteCalendar = [(''uuid'', ZString)]"
| "inputSchema T_resyncAllCalendars = []"
| "inputSchema T_botsWithMetadata =
     [(''botName'', ZOptional ZString),
      (''createdAfter'', ZOptional ZString),
      (''createdBefore'', ZOptional ZString),
      (''cursor'', ZOptional ZString),
      (''filterByExtra'', ZOptional ZString),
      (''limit'', ZOptional ZNumber),
      (''meetingUrl'', ZOptional ZString),
      (''sortByExtra'', ZOptional ZString),
      (''speakerName'', ZOptional ZString)]"
| "inputSchema T_listEvents = [(''calendarUuid'', ZString)]"
| "inputSchema T_scheduleRecordEvent =
     [(''eventUuid'', ZString),
      (''botName'', ZString),
      (''extra'', ZOptional ZRecordAny)]"
| "inputSchema T_unscheduleRecordEvent = [(''eventUuid'', ZString)]"
| "inputSchema T_updateCalendar =
     [(''uuid'', ZString),
      (''oauthClientId'', ZOptional ZString),
      (''oauthClientSecret'', ZOptional ZString),
      (''oauthRefreshToken'', ZOptional ZString),
      (''platform'', ZOptional (ZEnum [''Google'', ''Microsoft''])),
      (''rawCalendarId'', ZOptional ZString)]"
| "inputSchema T_echo = [(''message'', ZString)]"

text \<open>A field is required when its schema is not \<^verbatim>\<open>.optional()\<close>.\<close>

fun required :: "ztype \<Rightarrow> bool" where
  "required (ZOptional t) = False"
| "required t = True"

subsection \<open>Raw arguments and their destructuring\<close>

text \<open>
  The raw argument bag of a call, \<^verbatim>\<open>map<string, any>\<close>; reading a key that
  is absent gives \<^verbatim>\<open>undefined\<close>.
\<close>

type_synonym bag = "string \<rightharpoonup> jsval"

definition field :: "bag \<Rightarrow> string \<Rightarrow> jsval" where
  "field arguments k = (case arguments k of None \<Rightarrow> JUndefined | Some v \<Rightarrow> v)"

text \<open>
  A validated value read at the type its schema gives it. On a value its schema
  accepts each reading is exact (\<open>JStr (as_string v) = v\<close> and so on); the
  default on other values is never reached after validation.
\<close>

fun as_string :: "jsval \<Rightarrow> string" where
  "as_string (JStr s) = s"
| "as_string v = []"

fun as_boolean :: "jsval \<Rightarrow> bool" where
  "as_boolean (JBool b) = b"
| "as_boolean v = False"

fun as_optional_string :: "jsval \<Rightarrow> string option" where
  "as_optional_string (JStr s) = Some s"
| "as_optional_string v = None"

fun as_optional_boolean :: "jsval \<Rightarrow> bool option" where
  "as_optional_boolean (JBool b) = Some b"
| "as_optional_boolean v = None"

fun as_optional_number :: "jsval \<Rightarrow> real option" where
  "as_optional_number (JNum n) = Some n"
| "as_optional_number v = None"

fun as_optional_record :: "jsval \<Rightarrow> (string \<times> jsval) list option" where
  "as_optional_record (JObj kvs) = Some kvs"
| "as_optional_record v = None"

text \<open>The destructuring parameter of each handler, applied to the validated bag.\<close>

fun destructure :: "tool \<Rightarrow> bag \<Rightarrow> tool_args" where
  "destructure T_joinMeeting arguments =
     JoinMeeting (as_string (field arguments ''meetingUrl''))
       (as_string (field arguments ''botName''))
       (as_optional_string (field arguments ''webhookUrl''))
       (as_optional_string (field arguments ''recordingMode''))
       (as_optional_boolean (field arguments ''speechToText''))
       (as_boolean (field arguments ''reserved''))"
| "destructure T_leaveMeeting arguments = LeaveMeeting (as_string (field arguments ''botId''))"
| "destructure T_getMeetingData arguments =
     GetMeetingData (as_string (field arguments ''botId''))"
| "destructure T_deleteData arguments = DeleteData (as_string (field arguments ''botId''))"
| "destructure T_createCalendar arguments =
     CreateCalendar (as_string (field arguments ''oauthClientId''))
       (as_string (field arguments ''oauthClientSecret''))
       (as_string (field arguments ''oauthRefreshToken''))
       (as_string (field arguments ''platform''))
       (as_string (field arguments ''rawCalendarId''))"
| "destructure T_listCalendars arguments = ListCalendars"
| "destructure T_getCalendar arguments = GetCalendar (as_string (field arguments ''uuid''))"
| "destructure T_deleteCalendar arguments =
     DeleteCalendar (as_string (field arguments ''uuid''))"
| "destructure T_resyncAllCalendars arguments = ResyncAllCalendars"
| "destructure T_botsWithMetadata arguments =
     BotsWithMetadata (as_optional_string (field arguments ''botName''))
       (as_optional_string (field arguments ''createdAfter''))
       (as_optional_string (field arguments ''createdBefore''))
       (as_optional_string (field arguments ''cursor''))
       (as_optional_string (field arguments ''filterByExtra''))
       (as_optional_number (field arguments ''limit''))
       (as_optional_string (field arguments ''meetingUrl''))
       (as_optional_string (field arguments ''sortByExtra''))
       (as_optional_string (field arguments ''speakerName''))"
| "destructure T_listEvents arguments =
     ListEvents (as_string (field arguments ''calendarUuid''))"
| "destructure T_scheduleRecordEvent arguments =
     ScheduleRecordEvent (as_string (field arguments ''eventUuid''))
       (as_string (field arguments ''botName''))
       (as_optional_record (field arguments ''extra''))"
| "destructure T_unscheduleRecordEvent arguments =
     UnscheduleRecordEvent (as_string (field arguments ''eventUuid''))"
| "destructure T_updateCalendar arguments =
     UpdateCalendar (as_string (field arguments ''uuid''))
       (as_optional_string (field arguments ''oauthClientId''))
       (as_optional_string (field arguments ''oauthClientSecret''))
       (as_optional_string (field arguments ''oauthRefreshToken''))
       (as_optional_string (field arguments ''platform''))
       (as_optional_string (field arguments ''rawCalendarId''))"
| "destructure T_echo arguments = Echo (as_string (field arguments ''message''))"

subsection \<open>The dispatcher\<close>

text \<open>
  Modelled from the spec: the validator behind \<^verbatim>\<open>server.tool\<close> (the
  zod library) is not among the repository's files. Section 4.2, step 2: "A
  missing required field, a wrong primitive type, or an enum value outside the
  declared set is a validation failure." A missing field reads as
  \<^verbatim>\<open>undefined\<close>, which only an optional schema accepts.
\<close>

fun accepts :: "ztype \<Rightarrow> jsval \<Rightarrow> bool" where
  "accepts ZString v = (case v of JStr s \<Rightarrow> True | _ \<Rightarrow> False)"
| "accepts ZNumber v = (case v of JNum n \<Rightarrow> True | _ \<Rightarrow> False)"
| "accepts ZBoolean v = (case v of JBool b \<Rightarrow> True | _ \<Rightarrow> False)"
| "accepts (ZEnum allowed) v = (case v of JStr s \<Rightarrow> s \<in> set allowed | _ \<Rightarrow> False)"
| "accepts ZRecordAny v = (case v of JObj kvs \<Rightarrow> True | _ \<Rightarrow> False)"
| "accepts (ZOptional t) v = (v = JUndefined \<or> accepts t v)"

text \<open>
  Modelled from the spec: the validator's pass over a schema is not among the
  repository's files. Section 4.2, step 2: "On validation failure, produce an
  error envelope describing the first violation". The first violation is the
  first field of the schema whose value the field's schema does not accept.
\<close>

fun first_violation :: "(string \<times> ztype) list \<Rightarrow> bag \<Rightarrow> string option" where
  "first_violation [] arguments = None"
| "first_violation ((k, t) # rest) arguments =
     (if accepts t (field arguments k) then first_violation rest arguments else Some k)"

text \<open>
  Modelled from the spec: the registry's lookup (\<^verbatim>\<open>../lib/mcp-api-handler\<close>
  and the server it builds) is not among the repository's files. Section 4.1:
  "\<^verbatim>\<open>lookup(name)\<close> returns the ToolDefinition or a tool-not-found signal".
\<close>

definition lookup :: "string \<Rightarrow> tool option" where
  "lookup toolName = find (\<lambda>t. name_of t = toolName) tools"

text \<open>
  Modelled from the spec: the envelope of a failure that the dispatcher itself
  reports is not built in the repository's files. Section 4.2: an error
  envelope is one text block with a message and \<^verbatim>\<open>isError = true\<close>.
\<close>

definition error_envelope :: "string \<Rightarrow> envelope" where
  "error_envelope message =
     \<lparr>content = [\<lparr>block_type = ''text'', block_text = Some message\<rparr>],
      isError = Some True\<rparr>"

text \<open>
  Modelled from the spec: the invocation dispatcher (\<^verbatim>\<open>../lib/mcp-api-handler\<close>
  and the server it builds) is not among the repository's files. Section 4.2:
  look the tool up, and answer an unknown name with an error envelope, invoking
  nothing; validate the raw arguments against the tool's schema, and answer a
  violation with an error envelope that describes the first one, without
  invoking the handler; otherwise invoke the handler on the validated arguments
  and answer with its envelope. "The dispatcher never itself throws outward
  -- every failure path resolves to an error-flagged ToolResult": a throw of the
  handler is answered with an error envelope. The specification fixes no
  wording for the three messages: they name the tool and the violating field.
\<close>

definition invoke :: "('u, 'd) BaasClient \<Rightarrow> ('d \<Rightarrow> jsval + string) \<Rightarrow> string \<Rightarrow> bag \<Rightarrow> world
    \<Rightarrow> envelope \<times> world" where
  "invoke baasClient JSON_stringify toolName arguments w =
     (case lookup toolName of
        None \<Rightarrow> (error_envelope (''Unknown tool: '' @ toolName), w)
      | Some t \<Rightarrow>
          (case first_violation (inputSchema t) arguments of
             Some k \<Rightarrow>
               (error_envelope (''Invalid arguments for tool '' @ toolName @ '': '' @ k), w)
           | None \<Rightarrow>
               (case handler baasClient JSON_stringify (destructure t arguments) w of
                  (Inr result, w') \<Rightarrow> (result, w')
                | (Inl error, w') \<Rightarrow>
                    (error_envelope (''Tool '' @ toolName @ '' failed''), w'))))"

section \<open>Properties of the handlers\<close>

lemmas handler_defs =
  joinMeeting_handler_def leaveMeeting_handler_def getMeetingData_handler_def
  deleteData_handler_def createCalendar_handler_def listCalendars_handler_def
  getCalendar_handler_def deleteCalendar_handler_def resyncAllCalendars_handler_def
  botsWithMetadata_handler_def listEvents_handler_def scheduleRecordEvent_handler_def
  unscheduleRecordEvent_handler_def updateCalendar_handler_def echo_handler_def

lemmas params_defs =
  joinMeeting_params_def createCalendar_params_def listRecentBots_params_def
  scheduleRecordEvent_params_def updateCalendar_params_def

lemmas run_defs = try_catch_def await_def stringify_def console_error_def

lemma settled_Inl: "settled r = Some (Inl e) \<longleftrightarrow> r = Inl e"
  by (cases r) (simp_all add: settled_def)

text \<open>Every handler but \<^verbatim>\<open>echo\<close> makes exactly one call; \<^verbatim>\<open>echo\<close> makes none.\<close>

lemma handler_calls_once:
  "\<exists>call. calls (snd (handler baasClient JSON_stringify a w)) =
      calls w @ (if tool_name a = ''echo'' then [] else [call])"
  by (cases a) (simp_all add: handler_defs run_defs split: sum.splits option.splits)

text \<open>Every handler returns, and returns exactly one block, of type \<^verbatim>\<open>"text"\<close>.\<close>

lemma handler_envelope_stays_one_block:
  "\<exists>env t. fst (handler baasClient JSON_stringify a w) = Inr env \<and>
      content env = [\<lparr>block_type = ''text'', block_text = t\<rparr>]"
  by (cases a) (auto simp add: handler_defs run_defs split: sum.splits option.splits)

text \<open>A rejection is logged with the sentence of the tool and the error itself.\<close>

lemma rejection_is_logged:
  assumes "backend_answer baasClient a = Some (Inl error)"
  shows "\<exists>line. console (snd (handler baasClient JSON_stringify a w)) =
           console w @ [(line, error)]"
  using assms
  by (cases a) (simp_all add: handler_defs run_defs settled_Inl)

text \<open>
  A throw of \<^verbatim>\<open>JSON.stringify\<close> is caught like a rejection: the handler
  returns the failure envelope and logs the error thrown.
\<close>

lemma stringify_throw_is_caught:
  assumes "getMeetingData baasClient [JStr botId] = Inr (Some d)"
    and "JSON_stringify d = Inl error"
  shows "handler baasClient JSON_stringify (GetMeetingData botId) w =
    (Inr \<lparr>content = [\<lparr>block_type = ''text'',
                         block_text = Some ''Failed to get meeting data''\<rparr>],
           isError = Some True\<rparr>,
     console_error ''Failed to get meeting data:'' error
       (w\<lparr>calls := calls w @ [(''getMeetingData'', [JStr botId])]\<rparr>))"
  using assms by (simp add: getMeetingData_handler_def run_defs)

text \<open>
  An \<^verbatim>\<open>undefined\<close> answer spliced into the template string of
  \<^verbatim>\<open>createCalendar\<close> is the word "undefined": the text stays a string.
\<close>

lemma createCalendar_undefined_is_spliced:
  assumes "createCalendar baasClient
      [createCalendar_params oauthClientId oauthClientSecret oauthRefreshToken platform
         rawCalendarId] = Inr None"
  shows "fst (handler baasClient JSON_stringify
      (CreateCalendar oauthClientId oauthClientSecret oauthRefreshToken platform
         rawCalendarId) w) =
    Inr \<lparr>content = [\<lparr>block_type = ''text'',
                        block_text = Some ''Successfully created calendar: undefined''\<rparr>],
          isError = None\<rparr>"
  using assms by (simp add: createCalendar_handler_def run_defs)

subsection \<open>Backend failures\<close>

text \<open>
  Claim C1. For every registered tool, whenever the call to the backend client
  rejects, the handler returns an envelope whose content is exactly one text
  block holding the tool's fixed failure sentence, with \<^verbatim>\<open>isError = true\<close>;
  the envelope is the same for every client, every error value and every
  world in which the call rejects, so the error's own text never reaches it.
  The handler returns: it does not throw outward.
\<close>

theorem rejection_gives_fixed_failure_envelope:
  assumes "backend_answer baasClient a = Some (Inl error)"
  shows "\<exists>message. failure_message a = Some message \<and>
           fst (handler baasClient JSON_stringify a w) =
             Inr \<lparr>content = [\<lparr>block_type = ''text'', block_text = Some message\<rparr>],
                   isError = Some True\<rparr> \<and>
           (\<forall>baasClient' error' w'.
              backend_answer baasClient' a = Some (Inl error') \<longrightarrow>
              fst (handler baasClient' JSON_stringify a w') =
                fst (handler baasClient JSON_stringify a w))"
  using assms by (cases a) (simp_all add: handler_defs run_defs settled_Inl)

text \<open>
  The scenario of the specification:
  \<^verbatim>\<open>getMeetingData({botId: "bot-404"})\<close> with a backend that rejects.
\<close>

theorem rejection_gives_fixed_failure_envelope_witness:
  "backend_answer (fixed_client (Inr ''bot-1'') (Inr True) (Inr ()) (Inl (JStr ''ECONNRESET'')))
      (GetMeetingData ''bot-404'') = Some (Inl (JStr ''ECONNRESET'')) \<and>
   fst (handler (fixed_client (Inr ''bot-1'') (Inr True) (Inr ()) (Inl (JStr ''ECONNRESET'')))
          (\<lambda>d::unit. Inr ''{}'') (GetMeetingData ''bot-404'') quiet) =
     Inr \<lparr>content = [\<lparr>block_type = ''text'', block_text = Some ''Failed to get meeting data''\<rparr>],
      isError = Some True\<rparr>"
proof -
  let ?client = "fixed_client (Inr ''bot-1'') (Inr True) (Inr ()) (Inl (JStr ''ECONNRESET''))
    :: (unit, unit) BaasClient"
  have rejected: "backend_answer ?client (GetMeetingData ''bot-404'') =
      Some (Inl (JStr ''ECONNRESET''))"
    by (simp add: fixed_client_def settled_def)
  from rejection_gives_fixed_failure_envelope [OF rejected, of "\<lambda>d. Inr ''{}''" quiet]
  obtain message where "failure_message (GetMeetingData ''bot-404'') = Some message"
    and "fst (handler ?client (\<lambda>d. Inr ''{}'') (GetMeetingData ''bot-404'') quiet) =
      Inr \<lparr>content = [\<lparr>block_type = ''text'', block_text = Some message\<rparr>],
            isError = Some True\<rparr>"
    by blast
  then show ?thesis
    by (simp add: fixed_client_def settled_def)
qed

subsection \<open>The shape of the envelope\<close>




subsection \<open>Status answers\<close>

text \<open>
  Claim C3 says that for \<^verbatim>\<open>leaveMeeting\<close>, \<^verbatim>\<open>deleteData\<close>,
  \<^verbatim>\<open>deleteCalendar\<close> and \<^verbatim>\<open>resyncAllCalendars\<close> the sentence of the
  success path is chosen by the boolean the backend resolves to. It fails for
  \<^verbatim>\<open>deleteData\<close>: with a backend that resolves to \<^verbatim>\<open>false\<close> the handler
  still answers "Successfully deleted meeting data", which is no
  "Failed to" sentence.
\<close>

theorem deleteData_false_counterexample:
  "deleteData (fixed_client (Inr ''bot-123'') (Inr False) (Inr False) (Inr (Some ()))) [JStr ''bot-123''] =
     Inr False \<and>
   fst (handler (fixed_client (Inr ''bot-123'') (Inr False) (Inr False) (Inr (Some ()))) (\<lambda>d. Inr ''{}'')
      (DeleteData ''bot-123'') quiet) =
     Inr \<lparr>content = [\<lparr>block_type = ''text'', block_text = Some ''Successfully deleted meeting data''\<rparr>],
      isError = None\<rparr> \<and>
   map_option (take 9) (block_text (hd (content (projr (fst (handler
      (fixed_client (Inr ''bot-123'') (Inr False) (Inr False) (Inr (Some ()))) (\<lambda>d. Inr ''{}'')
      (DeleteData ''bot-123'') quiet)))))) \<noteq> Some ''Failed to''"
  by (simp add: deleteData_handler_def run_defs fixed_client_def)

text \<open>
  Claim C3, amended. The handlers of \<^verbatim>\<open>leaveMeeting\<close> and
  \<^verbatim>\<open>deleteCalendar\<close> read the boolean the backend resolves to: the text is
  "Successfully left meeting" or "Successfully deleted calendar" when it is
  true, "Failed to leave meeting" or "Failed to delete calendar" when it is
  false. The handlers of \<^verbatim>\<open>deleteData\<close> and \<^verbatim>\<open>resyncAllCalendars\<close> do
  not read it: whenever the call resolves, to whatever value, the text is
  "Successfully deleted meeting data" or "Successfully resynced all
  calendars". In all four cases \<^verbatim>\<open>isError\<close> is absent.
\<close>

theorem status_sentence_by_tool:
  "(leaveMeeting baasClient [JStr botId] = Inr success \<longrightarrow>
      fst (handler baasClient JSON_stringify (LeaveMeeting botId) w) =
        Inr \<lparr>content = [\<lparr>block_type = ''text'',
                      block_text = Some (if success then ''Successfully left meeting''
                                    else ''Failed to leave meeting'')\<rparr>],
         isError = None\<rparr>) \<and>
   (deleteCalendar baasClient [JStr uuid] = Inr success \<longrightarrow>
      fst (handler baasClient JSON_stringify (DeleteCalendar uuid) w) =
        Inr \<lparr>content = [\<lparr>block_type = ''text'',
                      block_text = Some (if success then ''Successfully deleted calendar''
                                    else ''Failed to delete calendar'')\<rparr>],
         isError = None\<rparr>) \<and>
   (deleteData baasClient [JStr botId] = Inr result \<longrightarrow>
      fst (handler baasClient JSON_stringify (DeleteData botId) w) =
        Inr \<lparr>content = [\<lparr>block_type = ''text'',
                      block_text = Some ''Successfully deleted meeting data''\<rparr>],
         isError = None\<rparr>) \<and>
   (resyncAllCalendars baasClient [] = Inr result \<longrightarrow>
      fst (handler baasClient JSON_stringify ResyncAllCalendars w) =
        Inr \<lparr>content = [\<lparr>block_type = ''text'',
                      block_text = Some ''Successfully resynced all calendars''\<rparr>],
         isError = None\<rparr>)"
  by (simp add: leaveMeeting_handler_def deleteCalendar_handler_def deleteData_handler_def
      resyncAllCalendars_handler_def run_defs)

theorem status_sentence_by_tool_witness:
  "leaveMeeting (fixed_client (Inr ''bot-123'') (Inr True) (Inr True) (Inr (Some ()))) [JStr ''bot-123''] =
     Inr True \<and>
   fst (handler (fixed_client (Inr ''bot-123'') (Inr True) (Inr True) (Inr (Some ()))) (\<lambda>d. Inr ''{}'')
      (LeaveMeeting ''bot-123'') quiet) =
     Inr \<lparr>content = [\<lparr>block_type = ''text'', block_text = Some ''Successfully left meeting''\<rparr>],
      isError = None\<rparr> \<and>
   fst (handler (fixed_client (Inr ''bot-123'') (Inr True) (Inr True) (Inr (Some ()))) (\<lambda>d. Inr ''{}'')
      (DeleteCalendar ''cal-1'') quiet) =
     Inr \<lparr>content = [\<lparr>block_type = ''text'', block_text = Some ''Successfully deleted calendar''\<rparr>],
      isError = None\<rparr> \<and>
   fst (handler (fixed_client (Inr ''bot-123'') (Inr True) (Inr True) (Inr (Some ()))) (\<lambda>d. Inr ''{}'')
      (DeleteData ''bot-123'') quiet) =
     Inr \<lparr>content = [\<lparr>block_type = ''text'', block_text = Some ''Successfully deleted meeting data''\<rparr>],
      isError = None\<rparr> \<and>
   fst (handler (fixed_client (Inr ''bot-123'') (Inr True) (Inr True) (Inr (Some ()))) (\<lambda>d. Inr ''{}'')
      ResyncAllCalendars quiet) =
     Inr \<lparr>content = [\<lparr>block_type = ''text'', block_text = Some ''Successfully resynced all calendars''\<rparr>],
      isError = None\<rparr>"
  using status_sentence_by_tool
    [of "fixed_client (Inr ''bot-123'') (Inr True) (Inr True) (Inr (Some ()))" "''bot-123''" True
      "\<lambda>d. Inr ''{}''" quiet "''cal-1''" True]
  by (simp add: fixed_client_def)

text \<open>
  Claim C4. For \<^verbatim>\<open>leaveMeeting\<close> with a valid \<^verbatim>\<open>botId\<close>: when the backend
  resolves to \<^verbatim>\<open>false\<close> the handler returns the single text block "Failed to
  leave meeting" with \<^verbatim>\<open>isError\<close> absent; when the backend rejects it
  returns the same text with \<^verbatim>\<open>isError = true\<close>.
\<close>

theorem leaveMeeting_false_is_no_error:
  "(leaveMeeting baasClient [JStr botId] = Inr False \<longrightarrow>
      fst (handler baasClient JSON_stringify (LeaveMeeting botId) w) =
        Inr \<lparr>content = [\<lparr>block_type = ''text'', block_text = Some ''Failed to leave meeting''\<rparr>],
         isError = None\<rparr>) \<and>
   (leaveMeeting baasClient [JStr botId] = Inl error \<longrightarrow>
      fst (handler baasClient JSON_stringify (LeaveMeeting botId) w) =
        Inr \<lparr>content = [\<lparr>block_type = ''text'', block_text = Some ''Failed to leave meeting''\<rparr>],
         isError = Some True\<rparr>)"
  by (simp add: leaveMeeting_handler_def run_defs)

theorem leaveMeeting_false_is_no_error_witness:
  "leaveMeeting (fixed_client (Inr ''bot-123'') (Inr False) (Inr ()) (Inr (Some ()))) [JStr ''bot-123''] =
     Inr False \<and>
   fst (handler (fixed_client (Inr ''bot-123'') (Inr False) (Inr ()) (Inr (Some ()))) (\<lambda>d. Inr ''{}'')
      (LeaveMeeting ''bot-123'') quiet) =
     Inr \<lparr>content = [\<lparr>block_type = ''text'', block_text = Some ''Failed to leave meeting''\<rparr>],
      isError = None\<rparr> \<and>
   leaveMeeting (fixed_client (Inr ''bot-123'') (Inl (JStr ''timeout'')) (Inr ()) (Inr (Some ())))
      [JStr ''bot-123''] = Inl (JStr ''timeout'') \<and>
   fst (handler (fixed_client (Inr ''bot-123'') (Inl (JStr ''timeout'')) (Inr ()) (Inr (Some ()))) (\<lambda>d. Inr ''{}'')
      (LeaveMeeting ''bot-123'') quiet) =
     Inr \<lparr>content = [\<lparr>block_type = ''text'', block_text = Some ''Failed to leave meeting''\<rparr>],
      isError = Some True\<rparr>"
  using leaveMeeting_false_is_no_error
    [of "fixed_client (Inr ''bot-123'') (Inr False) (Inr ()) (Inr (Some ()))" "''bot-123''" "\<lambda>d. Inr ''{}''" quiet]
    leaveMeeting_false_is_no_error
    [of "fixed_client (Inr ''bot-123'') (Inl (JStr ''timeout'')) (Inr ()) (Inr (Some ()))" "''bot-123''"
      "\<lambda>d. Inr ''{}''" quiet "JStr ''timeout''"]
  by (simp add: fixed_client_def)

subsection \<open>What is forwarded to the backend\<close>

text \<open>
  Claim C5 says that no handler but \<^verbatim>\<open>joinMeeting\<close> branches, so that every
  other tool forwards its validated arguments unchanged. It fails for
  \<^verbatim>\<open>updateCalendar({uuid: "cal-1"})\<close>: the arguments pass the schema, the
  \<^verbatim>\<open>platform\<close> received is \<^verbatim>\<open>undefined\<close>, and the call to the backend
  carries \<^verbatim>\<open>platform: "Microsoft"\<close>.
\<close>

theorem updateCalendar_platform_counterexample:
  "tool_name (UpdateCalendar ''cal-1'' None None None None None) \<noteq> ''joinMeeting'' \<and>
   validated (UpdateCalendar ''cal-1'' None None None None None) \<and>
   calls (snd (handler (fixed_client (Inr ''bot-123'') (Inr True) (Inr ()) (Inr (Some ()))) (\<lambda>d. Inr ''{}'')
      (UpdateCalendar ''cal-1'' None None None None None) quiet)) \<noteq>
     calls quiet @ forwarded_unchanged (UpdateCalendar ''cal-1'' None None None None None)"
  by (simp add: updateCalendar_handler_def run_defs fixed_client_def quiet_def
      updateCalendar_params_def)

text \<open>
  Claim C5, amended. Besides the conditional of \<^verbatim>\<open>joinMeeting\<close> on
  \<^verbatim>\<open>speechToText\<close>, the handlers of \<^verbatim>\<open>createCalendar\<close> and
  \<^verbatim>\<open>updateCalendar\<close> hold a conditional on \<^verbatim>\<open>platform\<close>; it leaves a
  validated platform that is present as it is. So for every tool other than
  \<^verbatim>\<open>joinMeeting\<close>, the validated argument values are forwarded to the
  backend client unchanged, in the handler's one call, with one exception: the
  \<^verbatim>\<open>platform\<close> of an \<^verbatim>\<open>updateCalendar\<close> call that omits it. Such a
  call still forwards its \<^verbatim>\<open>uuid\<close> and its four other optional values
  unchanged: its call to the backend and the unchanged one are equal once the
  key \<^verbatim>\<open>platform\<close> is taken out of both.
\<close>

theorem validated_arguments_forwarded_unchanged:
  assumes "tool_name a \<noteq> ''joinMeeting''" and "validated a"
  shows "(\<not> omits_platform a \<longrightarrow>
            calls (snd (handler baasClient JSON_stringify a w)) =
              calls w @ forwarded_unchanged a) \<and>
         (omits_platform a \<longrightarrow>
            (\<exists>new. calls (snd (handler baasClient JSON_stringify a w)) = calls w @ new \<and>
               map (without_property ''platform'') new =
                 map (without_property ''platform'') (forwarded_unchanged a)))"
proof (cases a)
  case (CreateCalendar oauthClientId oauthClientSecret oauthRefreshToken platform rawCalendarId)
  with assms(2) have "(if platform = ''Google'' then ''Google'' else ''Microsoft'') = platform"
    by auto
  with CreateCalendar show ?thesis
    by (simp add: createCalendar_handler_def createCalendar_params_def run_defs
        split: sum.splits option.splits)
next
  case (UpdateCalendar uuid oauthClientId oauthClientSecret oauthRefreshToken platform
    rawCalendarId)
  show ?thesis
  proof (cases platform)
    case None
    with UpdateCalendar show ?thesis
      by (simp add: updateCalendar_handler_def updateCalendar_params_def run_defs
          without_property_def split: sum.splits option.splits)
  next
    case (Some p)
    with UpdateCalendar assms(2) have "(if platform = Some ''Google'' then ''Google''
        else ''Microsoft'') = p"
      by auto
    with UpdateCalendar Some show ?thesis
      by (simp add: updateCalendar_handler_def updateCalendar_params_def run_defs
          split: sum.splits option.splits)
  qed
qed (use assms(1) in \<open>simp_all add: handler_defs params_defs run_defs
      split: sum.splits option.splits\<close>)

text \<open>
  Two \<^verbatim>\<open>updateCalendar\<close> calls with credentials: one gives its platform,
  one omits it.
\<close>

theorem validated_arguments_forwarded_unchanged_witness:
  "tool_name (UpdateCalendar ''cal-1'' (Some ''id'') (Some ''secret'') (Some ''token'')
      (Some ''Google'') (Some ''primary'')) \<noteq> ''joinMeeting'' \<and>
   validated (UpdateCalendar ''cal-1'' (Some ''id'') (Some ''secret'') (Some ''token'')
      (Some ''Google'') (Some ''primary'')) \<and>
   \<not> omits_platform (UpdateCalendar ''cal-1'' (Some ''id'') (Some ''secret'') (Some ''token'')
      (Some ''Google'') (Some ''primary'')) \<and>
   calls (snd (handler (fixed_client (Inr ''bot-123'') (Inr True) (Inr ()) (Inr (Some ())))
      (\<lambda>d. Inr ''{}'')
      (UpdateCalendar ''cal-1'' (Some ''id'') (Some ''secret'') (Some ''token'')
         (Some ''Google'') (Some ''primary'')) quiet)) =
     [(''updateCalendar'',
       [JStr ''cal-1'',
        JObj [(''oauthClientId'', JStr ''id''),
              (''oauthClientSecret'', JStr ''secret''),
              (''oauthRefreshToken'', JStr ''token''),
              (''platform'', JStr ''Google''),
              (''rawCalendarId'', JStr ''primary'')]])] \<and>
   validated (UpdateCalendar ''cal-1'' (Some ''id'') (Some ''secret'') (Some ''token'') None
      (Some ''primary'')) \<and>
   omits_platform (UpdateCalendar ''cal-1'' (Some ''id'') (Some ''secret'') (Some ''token'') None
      (Some ''primary'')) \<and>
   map (without_property ''platform'')
     (calls (snd (handler (fixed_client (Inr ''bot-123'') (Inr True) (Inr ()) (Inr (Some ())))
        (\<lambda>d. Inr ''{}'')
        (UpdateCalendar ''cal-1'' (Some ''id'') (Some ''secret'') (Some ''token'') None
           (Some ''primary'')) quiet))) =
     [(''updateCalendar'',
       [JStr ''cal-1'',
        JObj [(''oauthClientId'', JStr ''id''),
              (''oauthClientSecret'', JStr ''secret''),
              (''oauthRefreshToken'', JStr ''token''),
              (''rawCalendarId'', JStr ''primary'')]])]"
  using validated_arguments_forwarded_unchanged
    [of "UpdateCalendar ''cal-1'' (Some ''id'') (Some ''secret'') (Some ''token'')
        (Some ''Google'') (Some ''primary'')"
      "fixed_client (Inr ''bot-123'') (Inr True) (Inr ()) (Inr (Some ()))" "\<lambda>d. Inr ''{}''"
      quiet]
    validated_arguments_forwarded_unchanged
    [of "UpdateCalendar ''cal-1'' (Some ''id'') (Some ''secret'') (Some ''token'') None
        (Some ''primary'')"
      "fixed_client (Inr ''bot-123'') (Inr True) (Inr ()) (Inr (Some ()))" "\<lambda>d. Inr ''{}''"
      quiet]
  by (auto simp add: quiet_def without_property_def)

text \<open>
  Claim C9. For every \<^verbatim>\<open>updateCalendar\<close> call the handler makes one call,
  \<^verbatim>\<open>baasClient.updateCalendar(uuid, params)\<close>. When the optional
  \<^verbatim>\<open>platform\<close> is omitted, \<open>params\<close> carries \<^verbatim>\<open>platform: "Microsoft"\<close>;
  only the value \<^verbatim>\<open>"Google"\<close> is forwarded as \<^verbatim>\<open>"Google"\<close>; every other
  case, absence included, is forwarded as \<^verbatim>\<open>"Microsoft"\<close>.
\<close>

theorem updateCalendar_platform_forwarding:
  "calls (snd (handler baasClient JSON_stringify
      (UpdateCalendar uuid oauthClientId oauthClientSecret oauthRefreshToken platform
         rawCalendarId) w)) =
     calls w @ [(''updateCalendar'',
       [JStr uuid,
        updateCalendar_params oauthClientId oauthClientSecret oauthRefreshToken platform
          rawCalendarId])] \<and>
   property (updateCalendar_params oauthClientId oauthClientSecret oauthRefreshToken None
      rawCalendarId) ''platform'' = JStr ''Microsoft'' \<and>
   property (updateCalendar_params oauthClientId oauthClientSecret oauthRefreshToken
      (Some ''Google'') rawCalendarId) ''platform'' = JStr ''Google'' \<and>
   (platform \<noteq> Some ''Google'' \<longrightarrow>
      property (updateCalendar_params oauthClientId oauthClientSecret oauthRefreshToken platform
        rawCalendarId) ''platform'' = JStr ''Microsoft'')"
  by (simp add: updateCalendar_handler_def run_defs updateCalendar_params_def split: sum.splits option.splits)

theorem updateCalendar_platform_forwarding_witness:
  "calls (snd (handler (fixed_client (Inr ''bot-123'') (Inr True) (Inr ()) (Inr (Some ()))) (\<lambda>d. Inr ''{}'')
      (UpdateCalendar ''cal-1'' None None None None None) quiet)) =
     [(''updateCalendar'',
       [JStr ''cal-1'',
        JObj [(''oauthClientId'', JUndefined),
              (''oauthClientSecret'', JUndefined),
              (''oauthRefreshToken'', JUndefined),
              (''platform'', JStr ''Microsoft''),
              (''rawCalendarId'', JUndefined)]])] \<and>
   (None :: string option) \<noteq> Some ''Google'' \<and>
   property (updateCalendar_params None None None None None) ''platform'' = JStr ''Microsoft''"
  using updateCalendar_platform_forwarding
    [of "fixed_client (Inr ''bot-123'') (Inr True) (Inr ()) (Inr (Some ()))" "\<lambda>d. Inr ''{}''" "''cal-1''"
      None None None None None quiet]
  by (simp add: quiet_def updateCalendar_params_def)

text \<open>
  Claim C10. For every \<^verbatim>\<open>joinMeeting\<close> call the handler makes one call,
  \<^verbatim>\<open>baasClient.joinMeeting(params)\<close>, in which \<^verbatim>\<open>speechToText\<close> is never a
  boolean: it is the object \<^verbatim>\<open>{provider: "Default"}\<close> when the argument is
  \<^verbatim>\<open>true\<close> and \<^verbatim>\<open>undefined\<close> when the argument is \<^verbatim>\<open>false\<close> or omitted.
  A caller that passes \<^verbatim>\<open>false\<close> and one that omits the field get the same
  run of the handler: the same call, the same envelope, the same log.
\<close>

theorem joinMeeting_speechToText_forwarding:
  "calls (snd (handler baasClient JSON_stringify
      (JoinMeeting meetingUrl botName webhookUrl recordingMode speechToText reserved) w)) =
     calls w @ [(''joinMeeting'',
       [joinMeeting_params meetingUrl botName webhookUrl recordingMode speechToText reserved])] \<and>
   (\<forall>b. property (joinMeeting_params meetingUrl botName webhookUrl recordingMode speechToText
      reserved) ''speechToText'' \<noteq> JBool b) \<and>
   property (joinMeeting_params meetingUrl botName webhookUrl recordingMode (Some True)
      reserved) ''speechToText'' = JObj [(''provider'', JStr ''Default'')] \<and>
   property (joinMeeting_params meetingUrl botName webhookUrl recordingMode (Some False)
      reserved) ''speechToText'' = JUndefined \<and>
   property (joinMeeting_params meetingUrl botName webhookUrl recordingMode None
      reserved) ''speechToText'' = JUndefined \<and>
   handler baasClient JSON_stringify
      (JoinMeeting meetingUrl botName webhookUrl recordingMode (Some False) reserved) w =
     handler baasClient JSON_stringify
      (JoinMeeting meetingUrl botName webhookUrl recordingMode None reserved) w"
  by (simp add: joinMeeting_handler_def run_defs joinMeeting_params_def split: sum.splits option.splits)

theorem joinMeeting_speechToText_forwarding_witness:
  "calls (snd (handler (fixed_client (Inr ''bot-123'') (Inr True) (Inr ()) (Inr (Some ()))) (\<lambda>d. Inr ''{}'')
      (JoinMeeting ''https://meet.example/abc'' ''Notetaker'' None None (Some True) False)
      quiet)) =
     [(''joinMeeting'',
       [JObj [(''meetingUrl'', JStr ''https://meet.example/abc''),
              (''botName'', JStr ''Notetaker''),
              (''webhookUrl'', JUndefined),
              (''recordingMode'', JUndefined),
              (''speechToText'', JObj [(''provider'', JStr ''Default'')]),
              (''reserved'', JBool False)]])]"
  using joinMeeting_speechToText_forwarding
    [of "fixed_client (Inr ''bot-123'') (Inr True) (Inr ()) (Inr (Some ()))" "\<lambda>d. Inr ''{}''"
      "''https://meet.example/abc''" "''Notetaker''" None None "Some True" False quiet]
  by (simp add: quiet_def joinMeeting_params_def)

subsection \<open>The scenario of a successful join\<close>

text \<open>
  Claim C8. For \<^verbatim>\<open>joinMeeting\<close> with the arguments
  \<^verbatim>\<open>{meetingUrl: "https://meet.example/abc", botName: "Notetaker", reserved: false}\<close>
  and a backend whose \<^verbatim>\<open>joinMeeting\<close> resolves to \<^verbatim>\<open>"bot-123"\<close>, the
  handler returns exactly the single text block "Successfully joined meeting
  with bot ID: bot-123", with no \<^verbatim>\<open>isError\<close>.
\<close>

theorem joinMeeting_scenario:
  assumes "joinMeeting baasClient
      [joinMeeting_params ''https://meet.example/abc'' ''Notetaker'' None None None False] =
     Inr ''bot-123''"
  shows "fst (handler baasClient JSON_stringify
      (JoinMeeting ''https://meet.example/abc'' ''Notetaker'' None None None False) w) =
     Inr \<lparr>content = [\<lparr>block_type = ''text'',
                   block_text = Some ''Successfully joined meeting with bot ID: bot-123''\<rparr>],
      isError = None\<rparr>"
  using assms by (simp add: joinMeeting_handler_def run_defs)

theorem joinMeeting_scenario_witness:
  "joinMeeting (fixed_client (Inr ''bot-123'') (Inr True) (Inr ()) (Inr (Some ())))
      [joinMeeting_params ''https://meet.example/abc'' ''Notetaker'' None None None False] =
     Inr ''bot-123'' \<and>
   fst (handler (fixed_client (Inr ''bot-123'') (Inr True) (Inr ()) (Inr (Some ()))) (\<lambda>d. Inr ''{}'')
      (JoinMeeting ''https://meet.example/abc'' ''Notetaker'' None None None False) quiet) =
     Inr \<lparr>content = [\<lparr>block_type = ''text'',
                   block_text = Some ''Successfully joined meeting with bot ID: bot-123''\<rparr>],
      isError = None\<rparr>"
  using joinMeeting_scenario
    [of "fixed_client (Inr ''bot-123'') (Inr True) (Inr ()) (Inr (Some ()))" "\<lambda>d. Inr ''{}''" quiet]
  by (simp add: fixed_client_def)

section \<open>Properties of the dispatcher\<close>

lemma lookup_name_of: "lookup (name_of t) = Some t"
  by (cases t) (simp_all add: lookup_def tools_def)

lemma first_violation_exists:
  assumes "(k, t) \<in> set schema" and "\<not> accepts t (field arguments k)"
  shows "\<exists>k'. first_violation schema arguments = Some k'"
  using assms by (induction schema) auto

lemma required_rejects_undefined: "required t \<Longrightarrow> \<not> accepts t JUndefined"
  by (cases t) simp_all

lemma invoke_violation:
  assumes "lookup toolName = Some t" and "first_violation (inputSchema t) arguments = Some k"
  shows "invoke baasClient JSON_stringify toolName arguments w =
           (error_envelope (''Invalid arguments for tool '' @ toolName @ '': '' @ k), w)"
  using assms by (simp add: invoke_def)

text \<open>
  Whatever the name and the raw arguments, the dispatcher answers with exactly
  one text block: the handler's, or the one of its own error envelope.
\<close>

lemma invoke_single_text_block:
  "\<exists>t. content (fst (invoke baasClient JSON_stringify toolName arguments w)) =
     [\<lparr>block_type = ''text'', block_text = t\<rparr>]"
proof (cases "lookup toolName")
  case None
  then show ?thesis by (simp add: invoke_def error_envelope_def)
next
  case (Some tool)
  show ?thesis
  proof (cases "first_violation (inputSchema tool) arguments")
    case (Some k)
    with \<open>lookup toolName = Some tool\<close> show ?thesis
      by (simp add: invoke_def error_envelope_def)
  next
    case None
    obtain env t where
      "fst (handler baasClient JSON_stringify (destructure tool arguments) w) = Inr env"
      and "content env = [\<lparr>block_type = ''text'', block_text = t\<rparr>]"
      using handler_envelope_stays_one_block by blast
    with None \<open>lookup toolName = Some tool\<close> show ?thesis
      by (cases "handler baasClient JSON_stringify (destructure tool arguments) w")
        (simp add: invoke_def)
  qed
qed

text \<open>An unknown name is answered with an error envelope, and nothing is invoked.\<close>

lemma invoke_unknown_tool:
  assumes "lookup toolName = None"
  shows "invoke baasClient JSON_stringify toolName arguments w =
           (error_envelope (''Unknown tool: '' @ toolName), w)"
  using assms by (simp add: invoke_def)

text \<open>Arguments that pass a schema satisfy the enum constraint of \<open>validated\<close>.\<close>

lemma validated_destructure:
  assumes "first_violation (inputSchema t) arguments = None"
  shows "validated (destructure t arguments)"
  using assms by (cases t) (auto split: if_splits jsval.splits)

text \<open>
  The raw arguments of the join scenario pass the schema and reach the handler
  as the typed arguments of claim C8; the dispatcher answers with the envelope
  the handler returns.
\<close>

lemma invoke_joinMeeting_scenario:
  assumes "handler baasClient JSON_stringify
      (JoinMeeting ''https://meet.example/abc'' ''Notetaker'' None None None False) w =
     (Inr env, w')"
  shows "invoke baasClient JSON_stringify ''joinMeeting''
     [''meetingUrl'' \<mapsto> JStr ''https://meet.example/abc'', ''botName'' \<mapsto> JStr ''Notetaker'',
      ''reserved'' \<mapsto> JBool False] w = (env, w')"
  using assms by (simp add: invoke_def lookup_def tools_def field_def)

text \<open>
  Claim C6. For \<^verbatim>\<open>createCalendar\<close>, every argument bag whose
  \<^verbatim>\<open>platform\<close> is a string other than \<^verbatim>\<open>"Google"\<close> and \<^verbatim>\<open>"Microsoft"\<close>
  is rejected at validation with an error envelope, and the world is left as it
  was: no call to the backend client is made and nothing is logged.
\<close>

theorem createCalendar_platform_outside_enum_rejected:
  assumes "arguments ''platform'' = Some (JStr platform)"
    and "platform \<noteq> ''Google''" and "platform \<noteq> ''Microsoft''"
  shows "isError (fst (invoke baasClient JSON_stringify ''createCalendar'' arguments w)) =
           Some True \<and>
         content (fst (invoke baasClient JSON_stringify ''createCalendar'' arguments w)) \<noteq> [] \<and>
         snd (invoke baasClient JSON_stringify ''createCalendar'' arguments w) = w"
proof -
  have registered: "lookup ''createCalendar'' = Some T_createCalendar"
    using lookup_name_of [of T_createCalendar] by simp
  have "\<not> accepts (ZEnum [''Google'', ''Microsoft'']) (field arguments ''platform'')"
    using assms by (simp add: field_def)
  moreover have "(''platform'', ZEnum [''Google'', ''Microsoft''])
      \<in> set (inputSchema T_createCalendar)"
    by simp
  ultimately obtain k where "first_violation (inputSchema T_createCalendar) arguments = Some k"
    using first_violation_exists by blast
  with registered show ?thesis
    by (simp add: invoke_violation error_envelope_def)
qed

theorem createCalendar_platform_outside_enum_rejected_witness:
  "isError (fst (invoke (fixed_client (Inr ''bot-1'') (Inr True) (Inr ()) (Inr (Some ()))) (\<lambda>d. Inr ''{}'')
      ''createCalendar''
      [''oauthClientId'' \<mapsto> JStr ''id'', ''oauthClientSecret'' \<mapsto> JStr ''secret'',
       ''oauthRefreshToken'' \<mapsto> JStr ''token'', ''platform'' \<mapsto> JStr ''Zoom'',
       ''rawCalendarId'' \<mapsto> JStr ''primary''] quiet)) = Some True \<and>
   calls (snd (invoke (fixed_client (Inr ''bot-1'') (Inr True) (Inr ()) (Inr (Some ()))) (\<lambda>d. Inr ''{}'')
      ''createCalendar''
      [''oauthClientId'' \<mapsto> JStr ''id'', ''oauthClientSecret'' \<mapsto> JStr ''secret'',
       ''oauthRefreshToken'' \<mapsto> JStr ''token'', ''platform'' \<mapsto> JStr ''Zoom'',
       ''rawCalendarId'' \<mapsto> JStr ''primary''] quiet)) = []"
  using createCalendar_platform_outside_enum_rejected
    [of "[''oauthClientId'' \<mapsto> JStr ''id'', ''oauthClientSecret'' \<mapsto> JStr ''secret'',
       ''oauthRefreshToken'' \<mapsto> JStr ''token'', ''platform'' \<mapsto> JStr ''Zoom'',
       ''rawCalendarId'' \<mapsto> JStr ''primary'']" "''Zoom''"
      "fixed_client (Inr ''bot-1'') (Inr True) (Inr ()) (Inr (Some ()))" "\<lambda>d. Inr ''{}''" quiet]
  by (simp add: quiet_def)

text \<open>
  Claim C7. For every tool and every argument bag that lacks a required field
  of the tool's schema, the invocation returns an envelope with
  \<^verbatim>\<open>isError = true\<close> and leaves the world as it was: the handler is not
  invoked, so the backend client is never called.
\<close>

theorem missing_required_field_rejected:
  assumes "(k, t) \<in> set (inputSchema tool)" and "required t" and "arguments k = None"
  shows "isError (fst (invoke baasClient JSON_stringify (name_of tool) arguments w)) =
           Some True \<and>
         content (fst (invoke baasClient JSON_stringify (name_of tool) arguments w)) \<noteq> [] \<and>
         snd (invoke baasClient JSON_stringify (name_of tool) arguments w) = w"
proof -
  have "\<not> accepts t (field arguments k)"
    using assms(2,3) by (simp add: field_def required_rejects_undefined)
  with assms(1) obtain k' where "first_violation (inputSchema tool) arguments = Some k'"
    using first_violation_exists by blast
  then show ?thesis
    by (simp add: invoke_violation lookup_name_of error_envelope_def)
qed

text \<open>The example of the claim: a \<^verbatim>\<open>joinMeeting\<close> call without \<^verbatim>\<open>meetingUrl\<close>.\<close>

theorem missing_required_field_rejected_witness:
  "(''meetingUrl'', ZString) \<in> set (inputSchema T_joinMeeting) \<and> required ZString \<and>
   [''botName'' \<mapsto> JStr ''Notetaker'', ''reserved'' \<mapsto> JBool False] ''meetingUrl'' = None \<and>
   isError (fst (invoke (fixed_client (Inr ''bot-123'') (Inr True) (Inr ()) (Inr (Some ()))) (\<lambda>d. Inr ''{}'')
      ''joinMeeting'' [''botName'' \<mapsto> JStr ''Notetaker'', ''reserved'' \<mapsto> JBool False]
      quiet)) = Some True \<and>
   calls (snd (invoke (fixed_client (Inr ''bot-123'') (Inr True) (Inr ()) (Inr (Some ()))) (\<lambda>d. Inr ''{}'')
      ''joinMeeting'' [''botName'' \<mapsto> JStr ''Notetaker'', ''reserved'' \<mapsto> JBool False]
      quiet)) = []"
  using missing_required_field_rejected
    [of "''meetingUrl''" ZString T_joinMeeting
      "[''botName'' \<mapsto> JStr ''Notetaker'', ''reserved'' \<mapsto> JBool False]"
      "fixed_client (Inr ''bot-123'') (Inr True) (Inr ()) (Inr (Some ()))" "\<lambda>d. Inr ''{}''" quiet]
  by (simp add: quiet_def)

end
